theory Spec2Isabelle
  imports Main "HOL-Library.Word"
begin

section \<open>Data model\<close>

text \<open>
  An ObjectId of the database, given by its string form: 24 hexadecimal digits in lower
  case. \<open>toString\<close> is \<^verbatim>\<open>_id.toString()\<close>.
\<close>

datatype object_id = ObjectId string

fun toString :: "object_id \<Rightarrow> string" where
  "toString (ObjectId h) = h"

text \<open>
  The ids that clients send, the socket.io ids and the user names are strings of 8-bit
  characters. The text of a message is a JavaScript string: a list of UTF-16 code
  units, whose length is the \<^verbatim>\<open>length\<close> that the code and the schema measure. A date is a
  number of milliseconds.
\<close>

type_synonym socket_id = string
type_synonym js_string = "16 word list"
type_synonym date = nat

text \<open>The fields of a User document that the handlers read or write.\<close>

record user =
  username :: string
  isOnline :: bool
  lastSeen :: "date option"

text \<open>\<^verbatim>\<open>messageSchema\<close>, with the two timestamps of \<^verbatim>\<open>timestamps: true\<close>.\<close>

record message =
  msg_id :: object_id
  sender :: object_id
  receiver :: object_id
  msg_text :: js_string
  delivered :: bool
  read :: bool
  readAt :: "date option"
  deliveredAt :: "date option"
  createdAt :: date
  updatedAt :: date

text \<open>
  What a handler knows of its connection: \<^verbatim>\<open>socket.id\<close>, \<^verbatim>\<open>socket.userId\<close> and
  \<^verbatim>\<open>socket.user.username\<close>, all set by the authentication middleware before the
  connection handler runs. \<^verbatim>\<open>socket.userId\<close> is a key of \<^verbatim>\<open>activeUsers\<close> and is looked
  up there by the receiver ids that clients send, so it is a string: the string form of
  the id of the authenticated user, which is \<open>ObjectId (userId socket)\<close>.
\<close>

record socket =
  sock_id :: socket_id
  userId :: string
  sock_username :: string

text \<open>
  The state of the server: the two collections of the database and the two module-level
  maps of \<^verbatim>\<open>handlers.js\<close>. Documents are kept in insertion order.
\<close>

record server =
  users :: "object_id \<rightharpoonup> user"
  messages :: "message list"
  activeUsers :: "string \<rightharpoonup> socket_id"
  userSockets :: "socket_id \<rightharpoonup> string"

subsection \<open>Outbound events and responses\<close>

record user_ref =
  ref_id :: object_id
  ref_username :: string

text \<open>The object \<^verbatim>\<open>messageData\<close> of the send handler.\<close>

record message_data =
  md_id :: object_id
  md_text :: js_string
  md_sender :: user_ref
  md_receiver :: user_ref
  md_delivered :: bool
  md_read :: bool
  md_createdAt :: date

text \<open>The events of the live channel; the last argument of the two message events is \<^verbatim>\<open>isFromMe\<close>.\<close>

datatype event =
    Error string
  | MessageNew message_data bool
  | MessageSent message_data bool
  | TypingStart string string
  | TypingStop string string
  | MessageRead string string "date option"
  | ConversationRead string date
  | UserOnline string string
  | UserOffline string string date
  | UserStatus string bool date

text \<open>
  The \<^verbatim>\<open>data\<close> member of a REST response. The listing of a conversation page is not
  modelled (\<open>ConversationPage\<close> stands for it).
\<close>

datatype response_data =
    NoData
  | ConversationPage
  | SentMessage message_data date bool
  | ReadReceipt object_id bool "date option"
  | ModifiedCount nat

text \<open>
  What a handler does, in program order: \<open>Emit s e\<close> sends event \<open>e\<close> to connection \<open>s\<close>
  (\<^verbatim>\<open>socket.emit\<close>, \<^verbatim>\<open>io.to(s).emit\<close>); \<open>Broadcast s e\<close> sends it to every connection but
  \<open>s\<close>; \<open>Respond code success message data\<close> is the HTTP response; \<open>Wrote ds\<close> records a
  completed write to the message collection, with the documents as they were stored.
\<close>

datatype effect =
    Emit socket_id event
  | Broadcast socket_id event
  | Respond nat bool string response_data
  | Wrote "message list"

text \<open>
  The errors that a handler can meet: the two of the database layer, and the TypeError
  of reading a member of null.
\<close>

datatype js_error = CastError | ValidationError string | TypeError

section \<open>Values and strings\<close>

text \<open>A request field is absent (\<open>None\<close>) or a string; \<^verbatim>\<open>!v\<close> holds of an absent or empty one.\<close>

definition falsy :: "'a list option \<Rightarrow> bool" where
  "falsy v = (case v of None \<Rightarrow> True | Some s \<Rightarrow> s = [])"

text \<open>
  The code units that \<^verbatim>\<open>String.prototype.trim\<close> removes: the white space of ECMAScript
  (tab, vertical tab, form feed, space, no-break space, U+FEFF and the other space
  separators of Unicode) and its line terminators (line feed, carriage return, U+2028,
  U+2029). All of them are single code units.
\<close>

definition is_space :: "16 word \<Rightarrow> bool" where
  "is_space c =
     (c \<in> set [0x0009, 0x000A, 0x000B, 0x000C, 0x000D, 0x0020, 0x00A0, 0x1680,
                0x2000, 0x2001, 0x2002, 0x2003, 0x2004, 0x2005, 0x2006, 0x2007, 0x2008,
                0x2009, 0x200A, 0x2028, 0x2029, 0x202F, 0x205F, 0x3000, 0xFEFF])"

definition trim :: "js_string \<Rightarrow> js_string" where
  "trim s = rev (dropWhile is_space (rev (dropWhile is_space s)))"

text \<open>\<^verbatim>\<open>maxlength: [1000, ...]\<close> of the text field.\<close>

definition maxlength :: nat where
  "maxlength = 1000"

text \<open>
  The cast of a string to an ObjectId by the database layer: a string of 24 hexadecimal
  digits, in either case, is the id whose string form is its lower-case spelling; any
  other string is a CastError.
\<close>

definition is_hex :: "char \<Rightarrow> bool" where
  "is_hex c = (c \<in> set ''0123456789abcdefABCDEF'')"

definition lower_hex :: "char \<Rightarrow> char" where
  "lower_hex c =
     (if c = CHR ''A'' then CHR ''a'' else if c = CHR ''B'' then CHR ''b''
      else if c = CHR ''C'' then CHR ''c'' else if c = CHR ''D'' then CHR ''d''
      else if c = CHR ''E'' then CHR ''e'' else if c = CHR ''F'' then CHR ''f'' else c)"

definition castObjectId :: "string \<Rightarrow> js_error + object_id" where
  "castObjectId s =
     (if length s = 24 \<and> list_all is_hex s then Inr (ObjectId (map lower_hex s))
      else Inl CastError)"

section \<open>The connection registry\<close>

text \<open>
  \<^verbatim>\<open>const s = activeUsers.get(u); if (s) ...\<close>: the entry under the string \<open>u\<close>, when there is
  one and it is a non-empty string.
\<close>

definition resolve :: "server \<Rightarrow> string \<Rightarrow> socket_id option" where
  "resolve st u = (case activeUsers st u of None \<Rightarrow> None | Some s \<Rightarrow> if s = [] then None else Some s)"

text \<open>\<^verbatim>\<open>isUserOnline\<close>: \<^verbatim>\<open>activeUsers.has(userId)\<close>.\<close>

definition isUserOnline :: "server \<Rightarrow> string \<Rightarrow> bool" where
  "isUserOnline st u = (activeUsers st u \<noteq> None)"

section \<open>Database operations\<close>

text \<open>
  \<^verbatim>\<open>User.findById(id)\<close> for an id that a client sent: the cast can fail; the document
  found comes with its \<^verbatim>\<open>_id\<close>, the id that the string was cast to.
\<close>

definition User_findById :: "server \<Rightarrow> string \<Rightarrow> js_error + (object_id \<times> user) option" where
  "User_findById st i =
     (case castObjectId i of
        Inl e \<Rightarrow> Inl e
      | Inr oid \<Rightarrow> Inr (case users st oid of None \<Rightarrow> None | Some d \<Rightarrow> Some (oid, d)))"

text \<open>
  \<^verbatim>\<open>User.findByIdAndUpdate(userId, {isOnline, lastSeen: new Date()})\<close> for the id of the
  authenticated user: nothing is written when the document is gone.
\<close>

definition setPresence :: "object_id \<Rightarrow> bool \<Rightarrow> date \<Rightarrow> server \<Rightarrow> server" where
  "setPresence u b now st =
     (case users st u of
        None \<Rightarrow> st
      | Some d \<Rightarrow> st\<lparr>users := (users st)(u \<mapsto> d\<lparr>isOnline := b, lastSeen := Some now\<rparr>)\<rparr>)"

text \<open>An update of one document: the first that matches.\<close>

fun update_first :: "('a \<Rightarrow> bool) \<Rightarrow> ('a \<Rightarrow> 'a) \<Rightarrow> 'a list \<Rightarrow> 'a list" where
  "update_first P f [] = []"
| "update_first P f (x # xs) = (if P x then f x # xs else x # update_first P f xs)"

text \<open>
  \<^verbatim>\<open>new Message({sender, receiver, text})\<close> as \<^verbatim>\<open>save()\<close> stores it at time \<open>now\<close>: sender
  and receiver are stored as ObjectIds, the schema trims the text, the flags take their
  defaults, and both timestamps are the time of the save. \<open>oid\<close> is the ObjectId that
  the driver generates for the document.
\<close>

definition new_message :: "object_id \<Rightarrow> object_id \<Rightarrow> object_id \<Rightarrow> js_string \<Rightarrow> date \<Rightarrow> message" where
  "new_message oid s r t now =
     \<lparr>msg_id = oid, sender = s, receiver = r, msg_text = trim t,
      delivered = False, read = False, readAt = None, deliveredAt = None,
      createdAt = now, updatedAt = now\<rparr>"

text \<open>
  The first \<^verbatim>\<open>save()\<close> of a new message: the schema validates the trimmed text (required,
  at most \<open>maxlength\<close> code units) and the document is inserted. \<open>s\<close> and \<open>r\<close> are the ids
  that sender and receiver are cast to; both callers have cast the receiver id already
  (\<^verbatim>\<open>User.findById\<close>), and the sender is the authenticated user.
\<close>

definition Message_create ::
  "object_id \<Rightarrow> object_id \<Rightarrow> object_id \<Rightarrow> js_string \<Rightarrow> date \<Rightarrow> server \<Rightarrow> js_error + message \<times> server" where
  "Message_create oid s r t now st =
     (if trim t = [] then Inl (ValidationError ''Message text is required'')
      else if maxlength < length (trim t)
      then Inl (ValidationError ''Message cannot exceed 1000 characters'')
      else
        let m = new_message oid s r t now
        in Inr (m, st\<lparr>messages := messages st @ [m]\<rparr>))"

text \<open>\<^verbatim>\<open>Message.findById(id)\<close>.\<close>

definition Message_findById :: "server \<Rightarrow> string \<Rightarrow> js_error + message option" where
  "Message_findById st i =
     (case castObjectId i of
        Inl e \<Rightarrow> Inl e
      | Inr oid \<Rightarrow> Inr (find (\<lambda>m. msg_id m = oid) (messages st)))"

text \<open>
  \<^verbatim>\<open>Message.findByIdAndUpdate(id, {read: true, readAt: new Date()}, {new: true})\<close>: the
  updated document, or null when no document has the id.
\<close>

definition Message_findByIdAndUpdate ::
  "string \<Rightarrow> date \<Rightarrow> server \<Rightarrow> js_error + message option \<times> server" where
  "Message_findByIdAndUpdate i now st =
     (case castObjectId i of
        Inl e \<Rightarrow> Inl e
      | Inr oid \<Rightarrow>
          let upd = (\<lambda>m. m\<lparr>read := True, readAt := Some now, updatedAt := now\<rparr>) in
          case find (\<lambda>m. msg_id m = oid) (messages st) of
            None \<Rightarrow> Inr (None, st)
          | Some m \<Rightarrow>
              Inr (Some (upd m),
                   st\<lparr>messages := update_first (\<lambda>m. msg_id m = oid) upd (messages st)\<rparr>))"

text \<open>
  The static \<^verbatim>\<open>markAsRead(senderId, receiverId)\<close>: \<^verbatim>\<open>updateMany\<close> over the unread messages
  of the pair. The result carries the documents as written and \<^verbatim>\<open>modifiedCount\<close>. The
  sender id comes from a client and is cast; the receiver is the authenticated user.
\<close>

definition markAsRead ::
  "string \<Rightarrow> object_id \<Rightarrow> date \<Rightarrow> server \<Rightarrow> js_error + server \<times> message list \<times> nat" where
  "markAsRead senderId receiverId now st =
     (case castObjectId senderId of
        Inl e \<Rightarrow> Inl e
      | Inr s \<Rightarrow>
          let sel = (\<lambda>m. sender m = s \<and> receiver m = receiverId \<and> \<not> read m);
              upd = (\<lambda>m. m\<lparr>read := True, readAt := Some now, updatedAt := now\<rparr>)
          in Inr (st\<lparr>messages := map (\<lambda>m. if sel m then upd m else m) (messages st)\<rparr>,
                  map upd (filter sel (messages st)),
                  length (filter sel (messages st))))"

text \<open>The static \<^verbatim>\<open>markAsDelivered(senderId, receiverId)\<close>.\<close>

definition markAsDelivered ::
  "string \<Rightarrow> object_id \<Rightarrow> date \<Rightarrow> server \<Rightarrow> js_error + server \<times> message list \<times> nat" where
  "markAsDelivered senderId receiverId now st =
     (case castObjectId senderId of
        Inl e \<Rightarrow> Inl e
      | Inr s \<Rightarrow>
          let sel = (\<lambda>m. sender m = s \<and> receiver m = receiverId \<and> \<not> delivered m);
              upd = (\<lambda>m. m\<lparr>delivered := True, deliveredAt := Some now, updatedAt := now\<rparr>)
          in Inr (st\<lparr>messages := map (\<lambda>m. if sel m then upd m else m) (messages st)\<rparr>,
                  map upd (filter sel (messages st)),
                  length (filter sel (messages st))))"

text \<open>
  \<^verbatim>\<open>messageData\<close>, from the saved message and the two documents that \<^verbatim>\<open>populate\<close> loaded.
\<close>

definition messageData :: "message \<Rightarrow> user \<Rightarrow> user \<Rightarrow> message_data" where
  "messageData m s r =
     \<lparr>md_id = msg_id m, md_text = msg_text m,
      md_sender = \<lparr>ref_id = sender m, ref_username = username s\<rparr>,
      md_receiver = \<lparr>ref_id = receiver m, ref_username = username r\<rparr>,
      md_delivered = delivered m, md_read = read m, md_createdAt = createdAt m\<rparr>"

section \<open>The handlers of the live channel\<close>

text \<open>
  Every handler takes the time of its \<^verbatim>\<open>new Date()\<close> calls as \<open>now\<close> and returns the new
  state with its effects in program order. A handler runs from its first to its last
  statement on one state.
\<close>

text \<open>\<^verbatim>\<open>io.on('connection', ...)\<close>, up to the registration of the event handlers.\<close>

definition connection :: "socket \<Rightarrow> date \<Rightarrow> server \<Rightarrow> server \<times> effect list" where
  "connection socket now st =
     (let st1 = st\<lparr>activeUsers := (activeUsers st)(userId socket \<mapsto> sock_id socket),
                   userSockets := (userSockets st)(sock_id socket \<mapsto> userId socket)\<rparr>;
          st2 = setPresence (ObjectId (userId socket)) True now st1
      in (st2, [Broadcast (sock_id socket) (UserOnline (userId socket) (sock_username socket))]))"

text \<open>\<^verbatim>\<open>socket.on('disconnect', ...)\<close>.\<close>

definition disconnect :: "socket \<Rightarrow> date \<Rightarrow> server \<Rightarrow> server \<times> effect list" where
  "disconnect socket now st =
     (let st1 = st\<lparr>activeUsers := (activeUsers st)(userId socket := None),
                   userSockets := (userSockets st)(sock_id socket := None)\<rparr>;
          st2 = setPresence (ObjectId (userId socket)) False now st1
      in (st2, [Broadcast (sock_id socket)
                  (UserOffline (userId socket) (sock_username socket) now)]))"

text \<open>
  \<^verbatim>\<open>socket.on('message:send', ...)\<close>. The receiver's document is looked up under the cast
  id, and the message is stored with it; the receiver's connection is looked up under
  the string as it was sent. A database error or a null document after \<^verbatim>\<open>populate\<close>
  lands in the handler's \<^verbatim>\<open>catch\<close>.
\<close>

definition message_send ::
  "socket \<Rightarrow> date \<Rightarrow> object_id \<Rightarrow> string option \<Rightarrow> js_string option \<Rightarrow> server
     \<Rightarrow> server \<times> effect list" where
  "message_send socket now oid receiverId txt st =
     (case (receiverId, txt) of
        (Some rid, Some t) \<Rightarrow>
          if falsy receiverId \<or> falsy txt \<or> length (trim t) = 0
          then (st, [Emit (sock_id socket) (Error ''Invalid message data'')])
          else
            (case User_findById st rid of
               Inl e \<Rightarrow> (st, [Emit (sock_id socket) (Error ''Failed to send message'')])
             | Inr None \<Rightarrow> (st, [Emit (sock_id socket) (Error ''Receiver not found'')])
             | Inr (Some (r_oid, found)) \<Rightarrow>
                 (case Message_create oid (ObjectId (userId socket)) r_oid (trim t) now st of
                    Inl e \<Rightarrow> (st, [Emit (sock_id socket) (Error ''Failed to send message'')])
                  | Inr (message, st1) \<Rightarrow>
                      (case (users st1 (sender message), users st1 (receiver message)) of
                         (Some s, Some r) \<Rightarrow>
                           let data = messageData message s r in
                           (case resolve st1 rid of
                              Some receiverSocketId \<Rightarrow>
                                let upd = (\<lambda>m. m\<lparr>delivered := True, deliveredAt := Some now,
                                                 updatedAt := now\<rparr>);
                                    st2 = st1\<lparr>messages :=
                                            update_first (\<lambda>m. msg_id m = msg_id message) upd
                                              (messages st1)\<rparr>
                                in (st2,
                                    [Wrote [message],
                                     Emit receiverSocketId (MessageNew data False),
                                     Wrote [upd message],
                                     Emit (sock_id socket)
                                       (MessageSent (data\<lparr>md_delivered := delivered (upd message)\<rparr>)
                                          True)])
                            | None \<Rightarrow>
                                (st1,
                                 [Wrote [message],
                                  Emit (sock_id socket)
                                    (MessageSent (data\<lparr>md_delivered := delivered message\<rparr>) True)]))
                       | _ \<Rightarrow>
                           (st1, [Wrote [message],
                                  Emit (sock_id socket) (Error ''Failed to send message'')]))))
      | _ \<Rightarrow> (st, [Emit (sock_id socket) (Error ''Invalid message data'')]))"

text \<open>\<^verbatim>\<open>socket.on('typing:start', ...)\<close> and \<^verbatim>\<open>socket.on('typing:stop', ...)\<close>.\<close>

definition typing_start :: "socket \<Rightarrow> string \<Rightarrow> server \<Rightarrow> server \<times> effect list" where
  "typing_start socket receiverId st =
     (st, case resolve st receiverId of
            Some receiverSocketId \<Rightarrow>
              [Emit receiverSocketId (TypingStart (userId socket) (sock_username socket))]
          | None \<Rightarrow> [])"

definition typing_stop :: "socket \<Rightarrow> string \<Rightarrow> server \<Rightarrow> server \<times> effect list" where
  "typing_stop socket receiverId st =
     (st, case resolve st receiverId of
            Some receiverSocketId \<Rightarrow>
              [Emit receiverSocketId (TypingStop (userId socket) (sock_username socket))]
          | None \<Rightarrow> [])"

text \<open>\<^verbatim>\<open>socket.on('message:read', ...)\<close>; its \<^verbatim>\<open>catch\<close> only logs.\<close>

definition message_read ::
  "socket \<Rightarrow> date \<Rightarrow> string \<Rightarrow> string \<Rightarrow> server \<Rightarrow> server \<times> effect list" where
  "message_read socket now messageId senderId st =
     (case Message_findByIdAndUpdate messageId now st of
        Inl e \<Rightarrow> (st, [])
      | Inr (None, st1) \<Rightarrow> (st1, [])
      | Inr (Some message, st1) \<Rightarrow>
          (st1, Wrote [message] #
                (case resolve st1 senderId of
                   Some senderSocketId \<Rightarrow>
                     [Emit senderSocketId (MessageRead messageId (userId socket) (readAt message))]
                 | None \<Rightarrow> [])))"

text \<open>\<^verbatim>\<open>socket.on('conversation:read', ...)\<close>; its \<^verbatim>\<open>catch\<close> only logs.\<close>

definition conversation_read ::
  "socket \<Rightarrow> date \<Rightarrow> string \<Rightarrow> server \<Rightarrow> server \<times> effect list" where
  "conversation_read socket now senderId st =
     (case markAsRead senderId (ObjectId (userId socket)) now st of
        Inl e \<Rightarrow> (st, [])
      | Inr (st1, written, n) \<Rightarrow>
          (st1, Wrote written #
                (case resolve st1 senderId of
                   Some senderSocketId \<Rightarrow>
                     [Emit senderSocketId (ConversationRead (userId socket) now)]
                 | None \<Rightarrow> [])))"

text \<open>\<^verbatim>\<open>socket.on('status:update', ...)\<close>; an absent \<^verbatim>\<open>isOnline\<close> counts as true.\<close>

definition status_update ::
  "socket \<Rightarrow> date \<Rightarrow> bool option \<Rightarrow> server \<Rightarrow> server \<times> effect list" where
  "status_update socket now isOnline_opt st =
     (let b = (case isOnline_opt of Some v \<Rightarrow> v | None \<Rightarrow> True)
      in (setPresence (ObjectId (userId socket)) b now st,
          [Broadcast (sock_id socket) (UserStatus (userId socket) b now)]))"

section \<open>The REST routes of the messages\<close>

text \<open>
  A route takes the authenticated user (\<^verbatim>\<open>req.user._id\<close>) and the time, and returns the
  new state with its effects; the last effect is the response.
\<close>

text \<open>
  The \<^verbatim>\<open>catch\<close> of a route: 400 with the route's message for a CastError, 500 with its
  server message otherwise.
\<close>

definition rest_catch :: "string \<Rightarrow> string \<Rightarrow> js_error \<Rightarrow> effect" where
  "rest_catch cast_message server_message e =
     (case e of
        CastError \<Rightarrow> Respond 400 False cast_message NoData
      | _ \<Rightarrow> Respond 500 False server_message NoData)"

text \<open>
  The \<^verbatim>\<open>catch\<close> of \<^verbatim>\<open>POST /\<close>, which also answers a ValidationError with 400 and the
  validator's message.
\<close>

definition post_catch :: "js_error \<Rightarrow> effect" where
  "post_catch e =
     (case e of
        CastError \<Rightarrow> Respond 400 False ''Invalid receiver ID'' NoData
      | ValidationError msg \<Rightarrow> Respond 400 False msg NoData
      | TypeError \<Rightarrow> Respond 500 False ''Server error while sending message'' NoData)"

text \<open>
  \<^verbatim>\<open>GET /conversations/:id/messages\<close>: the page is read, then the messages of the other
  user to this one are marked delivered.
\<close>

definition get_conversation :: "object_id \<Rightarrow> date \<Rightarrow> string \<Rightarrow> server \<Rightarrow> server \<times> effect list" where
  "get_conversation me now otherUserId st =
     (case User_findById st otherUserId of
        Inl e \<Rightarrow> (st, [rest_catch ''Invalid user ID'' ''Server error while fetching messages'' e])
      | Inr None \<Rightarrow> (st, [Respond 404 False ''User not found'' NoData])
      | Inr (Some otherUser) \<Rightarrow>
          (case markAsDelivered otherUserId me now st of
             Inl e \<Rightarrow>
               (st, [rest_catch ''Invalid user ID'' ''Server error while fetching messages'' e])
           | Inr (st1, written, n) \<Rightarrow>
               (st1, [Wrote written, Respond 200 True [] ConversationPage])))"

text \<open>
  \<^verbatim>\<open>POST /\<close>: send a message. The guard against a send to oneself compares the receiver
  id as it was sent with the string form of the user's id.
\<close>

definition post_message ::
  "object_id \<Rightarrow> date \<Rightarrow> object_id \<Rightarrow> string option \<Rightarrow> js_string option \<Rightarrow> server
     \<Rightarrow> server \<times> effect list" where
  "post_message me now oid receiverId txt st =
     (case (receiverId, txt) of
        (Some rid, Some t) \<Rightarrow>
          if falsy receiverId \<or> falsy txt
          then (st, [Respond 400 False ''Receiver ID and message text are required'' NoData])
          else if length (trim t) = 0
          then (st, [Respond 400 False ''Message text cannot be empty'' NoData])
          else
            (case User_findById st rid of
               Inl e \<Rightarrow> (st, [post_catch e])
             | Inr None \<Rightarrow> (st, [Respond 404 False ''Receiver not found'' NoData])
             | Inr (Some (r_oid, found)) \<Rightarrow>
                 if rid = toString me
                 then (st, [Respond 400 False ''Cannot send message to yourself'' NoData])
                 else
                   (case Message_create oid me r_oid (trim t) now st of
                      Inl e \<Rightarrow> (st, [post_catch e])
                    | Inr (message, st1) \<Rightarrow>
                        (case (users st1 (sender message), users st1 (receiver message)) of
                           (Some s, Some r) \<Rightarrow>
                             (st1,
                              [Wrote [message],
                               Respond 201 True ''Message sent successfully''
                                 (SentMessage (messageData message s r) (updatedAt message) True)])
                         | _ \<Rightarrow> (st1, [Wrote [message], post_catch TypeError]))))
      | _ \<Rightarrow> (st, [Respond 400 False ''Receiver ID and message text are required'' NoData]))"

text \<open>
  \<^verbatim>\<open>PUT /:id/read\<close>. \<^verbatim>\<open>save()\<close> writes the paths that changed, and the update timestamp with
  them; it writes nothing when none changed.
\<close>

definition put_message_read :: "object_id \<Rightarrow> date \<Rightarrow> string \<Rightarrow> server \<Rightarrow> server \<times> effect list" where
  "put_message_read me now i st =
     (case Message_findById st i of
        Inl e \<Rightarrow>
          (st, [rest_catch ''Invalid message ID'' ''Server error while marking message as read'' e])
      | Inr None \<Rightarrow> (st, [Respond 404 False ''Message not found'' NoData])
      | Inr (Some message) \<Rightarrow>
          if toString (receiver message) \<noteq> toString me
          then (st, [Respond 403 False ''Not authorized to mark this message as read'' NoData])
          else
            let upd = (\<lambda>m. m\<lparr>read := True, readAt := Some now\<rparr>);
                response = Respond 200 True ''Message marked as read''
                             (ReadReceipt (msg_id message) (read (upd message)) (readAt (upd message)))
            in if upd message = message then (st, [response])
               else
                 (st\<lparr>messages :=
                       update_first (\<lambda>m. msg_id m = msg_id message)
                         (\<lambda>m. (upd m)\<lparr>updatedAt := now\<rparr>) (messages st)\<rparr>,
                  [Wrote [(upd message)\<lparr>updatedAt := now\<rparr>], response]))"

text \<open>\<^verbatim>\<open>PUT /conversations/:id/read\<close>.\<close>

definition put_conversation_read ::
  "object_id \<Rightarrow> date \<Rightarrow> string \<Rightarrow> server \<Rightarrow> server \<times> effect list" where
  "put_conversation_read me now senderId st =
     (case User_findById st senderId of
        Inl e \<Rightarrow>
          (st, [rest_catch ''Invalid user ID'' ''Server error while marking messages as read'' e])
      | Inr None \<Rightarrow> (st, [Respond 404 False ''User not found'' NoData])
      | Inr (Some found) \<Rightarrow>
          (case markAsRead senderId me now st of
             Inl e \<Rightarrow>
               (st, [rest_catch ''Invalid user ID''
                       ''Server error while marking messages as read'' e])
           | Inr (st1, written, n) \<Rightarrow>
               (st1, [Wrote written,
                      Respond 200 True ''Messages marked as read'' (ModifiedCount n)])))"

section \<open>Sequences of requests\<close>

text \<open>
  The requests that reach the server: the events of the live channel, each with the
  connection it arrives on, and the four routes, each with the authenticated user.
\<close>

datatype request =
    OnConnection socket date
  | OnDisconnect socket date
  | OnMessageSend socket date object_id "string option" "js_string option"
  | OnTypingStart socket string
  | OnTypingStop socket string
  | OnMessageRead socket date string string
  | OnConversationRead socket date string
  | OnStatusUpdate socket date "bool option"
  | GetConversation object_id date string
  | PostMessage object_id date object_id "string option" "js_string option"
  | PutMessageRead object_id date string
  | PutConversationRead object_id date string

fun step :: "request \<Rightarrow> server \<Rightarrow> server \<times> effect list" where
  "step (OnConnection socket now) st = connection socket now st"
| "step (OnDisconnect socket now) st = disconnect socket now st"
| "step (OnMessageSend socket now oid receiverId txt) st = message_send socket now oid receiverId txt st"
| "step (OnTypingStart socket receiverId) st = typing_start socket receiverId st"
| "step (OnTypingStop socket receiverId) st = typing_stop socket receiverId st"
| "step (OnMessageRead socket now messageId senderId) st = message_read socket now messageId senderId st"
| "step (OnConversationRead socket now senderId) st = conversation_read socket now senderId st"
| "step (OnStatusUpdate socket now b) st = status_update socket now b st"
| "step (GetConversation me now otherUserId) st = get_conversation me now otherUserId st"
| "step (PostMessage me now oid receiverId txt) st = post_message me now oid receiverId txt st"
| "step (PutMessageRead me now i) st = put_message_read me now i st"
| "step (PutConversationRead me now senderId) st = put_conversation_read me now senderId st"

text \<open>The state after a sequence of requests, handled one after the other.\<close>

fun run :: "request list \<Rightarrow> server \<Rightarrow> server" where
  "run [] st = st"
| "run (r # rs) st = run rs (fst (step r st))"

section \<open>Specification predicates\<close>

text \<open>
  \<open>advances m m'\<close>: \<open>m'\<close> is the same message as \<open>m\<close> and neither flag of its delivery
  state went back. \<open>evolves ms ms'\<close>: the collection \<open>ms'\<close> keeps every document of \<open>ms\<close>
  at its place, advanced.
\<close>

definition advances :: "message \<Rightarrow> message \<Rightarrow> bool" where
  "advances m m' =
     (msg_id m' = msg_id m \<and> (delivered m \<longrightarrow> delivered m') \<and> (read m \<longrightarrow> read m'))"

definition evolves :: "message list \<Rightarrow> message list \<Rightarrow> bool" where
  "evolves ms ms' = (length ms \<le> length ms' \<and> (\<forall>i<length ms. advances (ms ! i) (ms' ! i)))"

text \<open>\<open>blank v\<close>: the text \<open>v\<close> of a request is absent, or empty once trimmed.\<close>

definition blank :: "js_string option \<Rightarrow> bool" where
  "blank v = (case v of None \<Rightarrow> True | Some t \<Rightarrow> trim t = [])"

section \<open>Example data\<close>

text \<open>
  Three accounts, given by the string forms of their ids, and their connections;
  \<open>BOB_ID\<close> is bob's id spelled in upper case, \<open>dave_id\<close> a well-formed id that names no
  account, \<open>m1_id\<close> and \<open>m2_id\<close> the ids of two messages.
\<close>

definition alice_id :: string where
  "alice_id = ''aaaaaaaaaaaaaaaaaaaaaaaa''"

definition bob_id :: string where
  "bob_id = ''bbbbbbbbbbbbbbbbbbbbbbbb''"

definition BOB_ID :: string where
  "BOB_ID = ''BBBBBBBBBBBBBBBBBBBBBBBB''"

definition carol_id :: string where
  "carol_id = ''cccccccccccccccccccccccc''"

definition dave_id :: string where
  "dave_id = ''dddddddddddddddddddddddd''"

definition m1_id :: string where
  "m1_id = ''111111111111111111111111''"

definition m2_id :: string where
  "m2_id = ''222222222222222222222222''"

definition alice_socket :: socket where
  "alice_socket = \<lparr>sock_id = ''s-alice'', userId = alice_id, sock_username = ''alice''\<rparr>"

definition alice_socket2 :: socket where
  "alice_socket2 = \<lparr>sock_id = ''s-alice-2'', userId = alice_id, sock_username = ''alice''\<rparr>"

definition bob_socket :: socket where
  "bob_socket = \<lparr>sock_id = ''s-bob'', userId = bob_id, sock_username = ''bob''\<rparr>"

definition carol_socket :: socket where
  "carol_socket = \<lparr>sock_id = ''s-carol'', userId = carol_id, sock_username = ''carol''\<rparr>"

definition alice_user :: user where
  "alice_user = \<lparr>username = ''alice'', isOnline = False, lastSeen = None\<rparr>"

definition bob_user :: user where
  "bob_user = \<lparr>username = ''bob'', isOnline = False, lastSeen = None\<rparr>"

definition carol_user :: user where
  "carol_user = \<lparr>username = ''carol'', isOnline = False, lastSeen = None\<rparr>"

definition example_server :: server where
  "example_server =
     \<lparr>users = [ObjectId alice_id \<mapsto> alice_user, ObjectId bob_id \<mapsto> bob_user,
               ObjectId carol_id \<mapsto> carol_user],
      messages = [],
      activeUsers = Map.empty,
      userSockets = Map.empty\<rparr>"

text \<open>The same server with alice and bob connected.\<close>

definition online_server :: server where
  "online_server =
     example_server
       \<lparr>activeUsers := [alice_id \<mapsto> ''s-alice'', bob_id \<mapsto> ''s-bob''],
        userSockets := [''s-alice'' \<mapsto> alice_id, ''s-bob'' \<mapsto> bob_id]\<rparr>"

text \<open>
  Texts: \<^verbatim>\<open>hi\<close>; \<^verbatim>\<open>hi\<close> between a no-break space and a space; white space only (a space, a
  no-break space and a line separator); 1001 letters.
\<close>

definition hi :: js_string where
  "hi = [0x68, 0x69]"

definition hi_padded :: js_string where
  "hi_padded = [0xA0, 0x68, 0x69, 0x20]"

definition white :: js_string where
  "white = [0x20, 0xA0, 0x2028]"

definition letters_1001 :: js_string where
  "letters_1001 = replicate 1001 0x61"

text \<open>A message of alice to bob: \<open>unread_message\<close> as stored by a send, \<open>read_message\<close> once read.\<close>

definition unread_message :: message where
  "unread_message =
     \<lparr>msg_id = ObjectId m1_id, sender = ObjectId alice_id, receiver = ObjectId bob_id,
      msg_text = hi, delivered = True, read = False, readAt = None, deliveredAt = Some 3,
      createdAt = 3, updatedAt = 3\<rparr>"

definition read_message :: message where
  "read_message = unread_message\<lparr>read := True, readAt := Some 5, updatedAt := 5\<rparr>"

section \<open>The connection registry: properties\<close>

lemma connection_activeUsers:
  "activeUsers (fst (connection socket now st)) =
     (activeUsers st)(userId socket \<mapsto> sock_id socket)"
  by (simp add: connection_def setPresence_def Let_def split: option.split)

text \<open>
  C5. Registering a connection for a user overwrites whatever connection the user had:
  afterwards the forward map gives the new connection for that user (and \<open>resolve\<close>
  gives it whenever the socket id is a non-empty string, as socket.io ids are), the user
  is online, no other user's entry changes, and the only effect is the one
  \<^verbatim>\<open>user:online\<close> broadcast: no error is raised for the connection that was replaced.
\<close>

theorem register_last_connect_wins:
  "activeUsers (fst (connection socket now st)) (userId socket) = Some (sock_id socket) \<and>
   resolve (fst (connection socket now st)) (userId socket) =
     (if sock_id socket = [] then None else Some (sock_id socket)) \<and>
   isUserOnline (fst (connection socket now st)) (userId socket) \<and>
   activeUsers (fst (connection socket now st)) =
     (activeUsers st)(userId socket \<mapsto> sock_id socket) \<and>
   snd (connection socket now st) =
     [Broadcast (sock_id socket) (UserOnline (userId socket) (sock_username socket))]"
  by (simp add: connection_activeUsers resolve_def isUserOnline_def)
    (simp add: connection_def Let_def)

section \<open>Delivery state never regresses\<close>

lemma advances_refl: "advances m m"
  by (simp add: advances_def)

lemma evolves_refl: "evolves ms ms"
  by (simp add: evolves_def advances_refl)

lemma evolves_trans: "evolves a b \<Longrightarrow> evolves b c \<Longrightarrow> evolves a c"
  unfolding evolves_def advances_def
  by (metis (no_types, lifting) le_trans less_le_trans)

lemma evolves_append: "evolves ms (ms @ ns)"
  by (simp add: evolves_def advances_refl nth_append)

lemma evolves_map:
  assumes "\<And>m. advances m (f m)"
  shows "evolves ms (map f ms)"
  using assms by (simp add: evolves_def)

lemma length_update_first: "length (update_first P f xs) = length xs"
  by (induction xs) auto

lemma nth_update_first:
  "i < length xs \<Longrightarrow> update_first P f xs ! i = xs ! i \<or> update_first P f xs ! i = f (xs ! i)"
  by (induction xs arbitrary: i) (auto simp: nth_Cons split: nat.splits)

lemma evolves_update_first:
  assumes "\<And>m. advances m (f m)"
  shows "evolves ms (update_first P f ms)"
  unfolding evolves_def
proof (intro conjI allI impI)
  show "length ms \<le> length (update_first P f ms)"
    by (simp add: length_update_first)
next
  fix i assume "i < length ms"
  then have "update_first P f ms ! i = ms ! i \<or> update_first P f ms ! i = f (ms ! i)"
    by (rule nth_update_first)
  then show "advances (ms ! i) (update_first P f ms ! i)"
    using assms advances_refl by auto
qed

lemma setPresence_messages: "messages (setPresence u b now st) = messages st"
  by (simp add: setPresence_def split: option.split)

lemma Message_create_messages:
  "Message_create oid s r t now st = Inr (m, st1) \<Longrightarrow> messages st1 = messages st @ [m]"
  by (auto simp: Message_create_def Let_def split: if_splits)

lemma Message_findByIdAndUpdate_evolves:
  "Message_findByIdAndUpdate i now st = Inr (r, st1) \<Longrightarrow> evolves (messages st) (messages st1)"
  by (auto simp: Message_findByIdAndUpdate_def Let_def advances_def evolves_refl
        intro!: evolves_update_first split: sum.splits option.splits)

lemma markAsRead_evolves:
  "markAsRead s r now st = Inr (st1, w, n) \<Longrightarrow> evolves (messages st) (messages st1)"
  by (auto simp: markAsRead_def Let_def advances_def intro!: evolves_map split: sum.splits)

lemma markAsDelivered_evolves:
  "markAsDelivered s r now st = Inr (st1, w, n) \<Longrightarrow> evolves (messages st) (messages st1)"
  by (auto simp: markAsDelivered_def Let_def advances_def intro!: evolves_map split: sum.splits)

lemma connection_evolves: "evolves (messages st) (messages (fst (connection socket now st)))"
  by (simp add: connection_def Let_def setPresence_messages evolves_refl)

lemma disconnect_evolves: "evolves (messages st) (messages (fst (disconnect socket now st)))"
  by (simp add: disconnect_def Let_def setPresence_messages evolves_refl)

lemma status_update_evolves:
  "evolves (messages st) (messages (fst (status_update socket now b st)))"
  by (simp add: status_update_def Let_def setPresence_messages evolves_refl)

lemma evolves_append_update_first:
  assumes "\<And>m. advances m (f m)"
  shows "evolves ms (update_first P f (ms @ ns))"
  using evolves_append evolves_update_first [OF assms] by (rule evolves_trans)

lemma message_send_evolves:
  "evolves (messages st) (messages (fst (message_send socket now oid receiverId txt st)))"
proof -
  have upd: "\<And>m. advances m (m\<lparr>delivered := True, deliveredAt := Some now, updatedAt := now\<rparr>)"
    by (simp add: advances_def)
  show ?thesis
    by (auto simp: message_send_def Let_def evolves_refl evolves_append
          dest!: Message_create_messages intro!: evolves_append_update_first upd
          split: option.splits sum.splits prod.splits)
qed

lemma message_read_evolves:
  "evolves (messages st) (messages (fst (message_read socket now messageId senderId st)))"
  by (auto simp: message_read_def evolves_refl dest: Message_findByIdAndUpdate_evolves
        split: option.splits sum.splits prod.splits)

lemma conversation_read_evolves:
  "evolves (messages st) (messages (fst (conversation_read socket now senderId st)))"
  by (auto simp: conversation_read_def evolves_refl dest: markAsRead_evolves
        split: option.splits sum.splits prod.splits)

lemma get_conversation_evolves:
  "evolves (messages st) (messages (fst (get_conversation me now otherUserId st)))"
  by (auto simp: get_conversation_def evolves_refl dest: markAsDelivered_evolves
        split: option.splits sum.splits prod.splits)

lemma post_message_evolves:
  "evolves (messages st) (messages (fst (post_message me now oid receiverId txt st)))"
  by (auto simp: post_message_def Let_def evolves_refl evolves_append
        dest!: Message_create_messages split: option.splits sum.splits prod.splits)

lemma put_message_read_evolves:
  "evolves (messages st) (messages (fst (put_message_read me now i st)))"
proof -
  have upd: "\<And>m. advances m (m\<lparr>read := True, readAt := Some now, updatedAt := now\<rparr>)"
    by (simp add: advances_def)
  show ?thesis
    by (auto simp: put_message_read_def Let_def evolves_refl
          intro!: evolves_update_first upd split: option.splits sum.splits)
qed

lemma put_conversation_read_evolves:
  "evolves (messages st) (messages (fst (put_conversation_read me now senderId st)))"
  by (auto simp: put_conversation_read_def evolves_refl dest: markAsRead_evolves
        split: option.splits sum.splits prod.splits)

lemma step_evolves: "evolves (messages st) (messages (fst (step r st)))"
  by (cases r)
    (simp_all add: connection_evolves disconnect_evolves message_send_evolves
       message_read_evolves conversation_read_evolves status_update_evolves
       get_conversation_evolves post_message_evolves put_message_read_evolves
       put_conversation_read_evolves typing_start_def typing_stop_def evolves_refl)

lemma run_evolves: "evolves (messages st) (messages (run rs st))"
proof (induction rs arbitrary: st)
  case Nil
  show ?case by (simp add: evolves_refl)
next
  case (Cons r rs)
  have "evolves (messages st) (messages (fst (step r st)))"
    by (rule step_evolves)
  moreover have "evolves (messages (fst (step r st))) (messages (run rs (fst (step r st))))"
    by (rule Cons.IH)
  ultimately show ?case
    by (simp add: evolves_trans)
qed

text \<open>
  C1. Whatever requests the server handles, in whatever order (sends and read receipts
  over the live channel, the REST send and the two REST read routes, the fetch of a
  conversation with its bulk mark-delivered, connects and disconnects), every message of
  the store stays in the store at its place with its id, a message that was delivered
  stays delivered, and a message that was read stays read.
\<close>

theorem delivery_state_never_regresses:
  assumes "i < length (messages st)"
  shows "i < length (messages (run rs st)) \<and>
         msg_id (messages (run rs st) ! i) = msg_id (messages st ! i) \<and>
         (delivered (messages st ! i) \<longrightarrow> delivered (messages (run rs st) ! i)) \<and>
         (read (messages st ! i) \<longrightarrow> read (messages (run rs st) ! i))"
  using run_evolves [of st rs] assms
  unfolding evolves_def advances_def by auto

theorem delivery_state_never_regresses_witness:
  "delivered
     (messages
        (run [PutMessageRead (ObjectId bob_id) 20 m1_id, GetConversation (ObjectId bob_id) 21 alice_id,
              OnMessageRead carol_socket 22 m1_id alice_id,
              OnConversationRead bob_socket 23 alice_id,
              OnMessageSend alice_socket 24 (ObjectId m2_id) (Some bob_id) (Some hi),
              OnDisconnect alice_socket 25]
           (example_server\<lparr>messages := [read_message]\<rparr>)) ! 0) \<and>
   read
     (messages
        (run [PutMessageRead (ObjectId bob_id) 20 m1_id, GetConversation (ObjectId bob_id) 21 alice_id,
              OnMessageRead carol_socket 22 m1_id alice_id,
              OnConversationRead bob_socket 23 alice_id,
              OnMessageSend alice_socket 24 (ObjectId m2_id) (Some bob_id) (Some hi),
              OnDisconnect alice_socket 25]
           (example_server\<lparr>messages := [read_message]\<rparr>)) ! 0)"
  using delivery_state_never_regresses
    [of 0 "example_server\<lparr>messages := [read_message]\<rparr>"
        "[PutMessageRead (ObjectId bob_id) 20 m1_id, GetConversation (ObjectId bob_id) 21 alice_id,
          OnMessageRead carol_socket 22 m1_id alice_id,
          OnConversationRead bob_socket 23 alice_id,
          OnMessageSend alice_socket 24 (ObjectId m2_id) (Some bob_id) (Some hi),
          OnDisconnect alice_socket 25]"]
  by (simp add: read_message_def unread_message_def)

section \<open>Disconnects\<close>

text \<open>
  The claim C3, as stated, fails: alice connects on a first connection and then on a
  second one, which takes over her entry; when the first connection disconnects
  afterwards, her entry is deleted although it named the second connection, which stays
  open (its reverse entry is still there) and can no longer be resolved.
\<close>

theorem stale_disconnect_counterexample:
  "activeUsers (fst (connection alice_socket2 2 (fst (connection alice_socket 1 example_server))))
     alice_id = Some ''s-alice-2'' \<and>
   activeUsers
     (fst (disconnect alice_socket 3
        (fst (connection alice_socket2 2 (fst (connection alice_socket 1 example_server))))))
     alice_id = None \<and>
   resolve
     (fst (disconnect alice_socket 3
        (fst (connection alice_socket2 2 (fst (connection alice_socket 1 example_server))))))
     alice_id = None \<and>
   userSockets
     (fst (disconnect alice_socket 3
        (fst (connection alice_socket2 2 (fst (connection alice_socket 1 example_server))))))
     ''s-alice-2'' = Some alice_id"
  by (simp add: connection_def disconnect_def setPresence_def resolve_def Let_def
        example_server_def alice_socket_def alice_socket2_def alice_id_def bob_id_def carol_id_def)

text \<open>
  C3, amended. The disconnect handler deletes the entry of the connection's user from
  the forward map whatever connection that entry names, and the entry of the connection
  itself from the reverse map; the user is offline afterwards, every other user's entry
  is as before, and the one effect is the \<^verbatim>\<open>user:offline\<close> broadcast. In particular the
  entry is removed when the disconnecting connection is the registered one.
\<close>

theorem disconnect_removes_mapping:
  "activeUsers (fst (disconnect socket now st)) = (activeUsers st)(userId socket := None) \<and>
   userSockets (fst (disconnect socket now st)) = (userSockets st)(sock_id socket := None) \<and>
   resolve (fst (disconnect socket now st)) (userId socket) = None \<and>
   \<not> isUserOnline (fst (disconnect socket now st)) (userId socket) \<and>
   snd (disconnect socket now st) =
     [Broadcast (sock_id socket) (UserOffline (userId socket) (sock_username socket) now)]"
  by (simp add: disconnect_def setPresence_def resolve_def isUserOnline_def Let_def
        split: option.split)

section \<open>Sending over the live channel\<close>

lemma trim_Nil: "trim [] = []"
  by (simp add: trim_def)

lemma dropWhile_trim: "dropWhile P (rev (dropWhile P (rev (dropWhile P s)))) =
    rev (dropWhile P (rev (dropWhile P s)))"
  by (metis (no_types, lifting) Nil_is_rev_conv dropWhile_eq_Nil_conv
    dropWhile_eq_self_iff dropWhile_idem dropWhile_last hd_rev last_rev)

lemma trim_trim: "trim (trim s) = trim s"
  by (simp add: trim_def dropWhile_trim)


lemma Message_create_valid:
  assumes "trim t \<noteq> []" and "length (trim t) \<le> maxlength"
  shows "Message_create oid s r (trim t) now st =
           Inr (new_message oid s r t now,
                st\<lparr>messages := messages st @ [new_message oid s r t now]\<rparr>)"
  using assms by (simp add: Message_create_def new_message_def trim_trim Let_def)

lemma message_send_accepted:
  assumes "rid \<noteq> []" and "trim t \<noteq> []" and "length (trim t) \<le> maxlength"
    and "castObjectId rid = Inr r_oid" and "users st r_oid = Some r"
    and "users st (ObjectId (userId socket)) = Some s"
  shows "message_send socket now oid (Some rid) (Some t) st =
    (case resolve st rid of
       Some c \<Rightarrow>
         (st\<lparr>messages :=
               update_first (\<lambda>x. msg_id x = oid)
                 (\<lambda>x. x\<lparr>delivered := True, deliveredAt := Some now, updatedAt := now\<rparr>)
                 (messages st @ [new_message oid (ObjectId (userId socket)) r_oid t now])\<rparr>,
          [Wrote [new_message oid (ObjectId (userId socket)) r_oid t now],
           Emit c (MessageNew
             (messageData (new_message oid (ObjectId (userId socket)) r_oid t now) s r) False),
           Wrote [(new_message oid (ObjectId (userId socket)) r_oid t now)
                    \<lparr>delivered := True, deliveredAt := Some now, updatedAt := now\<rparr>],
           Emit (sock_id socket)
             (MessageSent
                ((messageData (new_message oid (ObjectId (userId socket)) r_oid t now) s r)
                   \<lparr>md_delivered := True\<rparr>) True)])
     | None \<Rightarrow>
         (st\<lparr>messages := messages st @ [new_message oid (ObjectId (userId socket)) r_oid t now]\<rparr>,
          [Wrote [new_message oid (ObjectId (userId socket)) r_oid t now],
           Emit (sock_id socket)
             (MessageSent
                (messageData (new_message oid (ObjectId (userId socket)) r_oid t now) s r)
                True)]))"
proof -
  from assms(2) have t: "t \<noteq> []"
    using trim_Nil by auto
  have flag: "(messageData (new_message oid (ObjectId (userId socket)) r_oid t now) s r)
               \<lparr>md_delivered := delivered (new_message oid (ObjectId (userId socket)) r_oid t now)\<rparr> =
             messageData (new_message oid (ObjectId (userId socket)) r_oid t now) s r"
    by (simp add: messageData_def)
  have ids: "sender (new_message oid (ObjectId (userId socket)) r_oid t now) = ObjectId (userId socket)"
    "receiver (new_message oid (ObjectId (userId socket)) r_oid t now) = r_oid"
    "msg_id (new_message oid (ObjectId (userId socket)) r_oid t now) = oid"
    by (simp_all add: new_message_def)
  show ?thesis
    unfolding message_send_def
    using assms t
    by (simp add: falsy_def User_findById_def Message_create_valid resolve_def ids flag Let_def
          split: option.split)
qed

subsection \<open>The example data\<close>

lemma example_ids:
  "alice_id \<noteq> bob_id" "bob_id \<noteq> alice_id" "alice_id \<noteq> carol_id" "carol_id \<noteq> alice_id"
  "bob_id \<noteq> carol_id" "carol_id \<noteq> bob_id" "alice_id \<noteq> []" "bob_id \<noteq> []" "carol_id \<noteq> []"
  "m1_id \<noteq> m2_id" "m2_id \<noteq> m1_id" "BOB_ID \<noteq> []" "BOB_ID \<noteq> bob_id" "BOB_ID \<noteq> alice_id"
  "dave_id \<noteq> []" "dave_id \<noteq> alice_id" "dave_id \<noteq> bob_id" "dave_id \<noteq> carol_id"
  by (simp_all add: alice_id_def bob_id_def carol_id_def m1_id_def m2_id_def BOB_ID_def
        dave_id_def)

lemma example_cast:
  "castObjectId alice_id = Inr (ObjectId alice_id)"
  "castObjectId bob_id = Inr (ObjectId bob_id)"
  "castObjectId carol_id = Inr (ObjectId carol_id)"
  "castObjectId dave_id = Inr (ObjectId dave_id)"
  "castObjectId m1_id = Inr (ObjectId m1_id)"
  "castObjectId m2_id = Inr (ObjectId m2_id)"
  "castObjectId BOB_ID = Inr (ObjectId bob_id)"
  "castObjectId ''nobody'' = Inl CastError"
  by (simp_all add: castObjectId_def is_hex_def lower_hex_def alice_id_def bob_id_def
        carol_id_def dave_id_def m1_id_def m2_id_def BOB_ID_def)

lemma example_users:
  "users example_server (ObjectId alice_id) = Some alice_user"
  "users example_server (ObjectId bob_id) = Some bob_user"
  "users example_server (ObjectId carol_id) = Some carol_user"
  "users example_server (ObjectId dave_id) = None"
  "users online_server = users example_server"
  by (simp_all add: example_server_def online_server_def example_ids)

lemma example_messages: "messages example_server = []" "messages online_server = []"
  by (simp_all add: example_server_def online_server_def)

lemma example_resolve:
  "resolve example_server u = None"
  "resolve online_server alice_id = Some ''s-alice''"
  "resolve online_server bob_id = Some ''s-bob''"
  "resolve online_server carol_id = None"
  "resolve online_server BOB_ID = None"
  by (simp_all add: resolve_def example_server_def online_server_def example_ids)

lemma example_sockets:
  "userId alice_socket = alice_id" "sock_id alice_socket = ''s-alice''"
  "userId bob_socket = bob_id" "sock_id bob_socket = ''s-bob''"
  "userId carol_socket = carol_id" "sock_id carol_socket = ''s-carol''"
  by (simp_all add: alice_socket_def bob_socket_def carol_socket_def)

lemma example_text:
  "trim hi = hi" "trim hi_padded = hi" "trim white = []" "hi \<noteq> []"
  "length hi = 2" "trim letters_1001 = letters_1001" "length letters_1001 = 1001"
  by (simp_all add: trim_def is_space_def hi_def hi_padded_def white_def letters_1001_def
        dropWhile_replicate)

lemma new_message_trimmed: "trim t = trim t' \<Longrightarrow> new_message oid s r t now = new_message oid s r t' now"
  by (simp add: new_message_def)

subsection \<open>Delivery and acknowledgment\<close>







section \<open>Sending to oneself\<close>

text \<open>
  C2. Over REST a send to oneself is answered with 400 \<^verbatim>\<open>Cannot send message to yourself\<close>
  and stores nothing. The handler of the live channel has no such check: when alice,
  connected, sends \<^verbatim>\<open>hi\<close> to her own id, the message is stored, pushed to her as
  \<^verbatim>\<open>message:new\<close>, marked delivered and acknowledged with \<^verbatim>\<open>message:sent\<close>; no error is
  emitted.
\<close>

theorem self_send_on_live_channel_is_stored:
  "message_send alice_socket 10 (ObjectId m1_id) (Some alice_id) (Some hi) online_server =
     (online_server
        \<lparr>messages :=
           [(new_message (ObjectId m1_id) (ObjectId alice_id) (ObjectId alice_id) hi 10)
              \<lparr>delivered := True, deliveredAt := Some 10, updatedAt := 10\<rparr>]\<rparr>,
      [Wrote [new_message (ObjectId m1_id) (ObjectId alice_id) (ObjectId alice_id) hi 10],
       Emit ''s-alice''
         (MessageNew
            (messageData (new_message (ObjectId m1_id) (ObjectId alice_id) (ObjectId alice_id) hi 10)
               alice_user alice_user) False),
       Wrote [(new_message (ObjectId m1_id) (ObjectId alice_id) (ObjectId alice_id) hi 10)
                \<lparr>delivered := True, deliveredAt := Some 10, updatedAt := 10\<rparr>],
       Emit ''s-alice''
         (MessageSent
            ((messageData (new_message (ObjectId m1_id) (ObjectId alice_id) (ObjectId alice_id) hi 10)
                alice_user alice_user)
               \<lparr>md_delivered := True\<rparr>) True)]) \<and>
   post_message (ObjectId alice_id) 10 (ObjectId m1_id) (Some alice_id) (Some hi) online_server =
     (online_server, [Respond 400 False ''Cannot send message to yourself'' NoData])"
proof -
  have body: "trim hi \<noteq> []" "length (trim hi) \<le> maxlength"
    by (simp_all add: example_text maxlength_def)
  have who: "users online_server (ObjectId alice_id) = Some alice_user"
    "users online_server (ObjectId (userId alice_socket)) = Some alice_user"
    by (simp_all add: example_users example_sockets)
  have id: "msg_id (new_message (ObjectId m1_id) (ObjectId alice_id) (ObjectId alice_id) hi 10) =
              ObjectId m1_id"
    by (simp add: new_message_def)
  have live: "message_send alice_socket 10 (ObjectId m1_id) (Some alice_id) (Some hi)
                online_server =
     (online_server
        \<lparr>messages :=
           [(new_message (ObjectId m1_id) (ObjectId alice_id) (ObjectId alice_id) hi 10)
              \<lparr>delivered := True, deliveredAt := Some 10, updatedAt := 10\<rparr>]\<rparr>,
      [Wrote [new_message (ObjectId m1_id) (ObjectId alice_id) (ObjectId alice_id) hi 10],
       Emit ''s-alice''
         (MessageNew
            (messageData (new_message (ObjectId m1_id) (ObjectId alice_id) (ObjectId alice_id) hi 10)
               alice_user alice_user) False),
       Wrote [(new_message (ObjectId m1_id) (ObjectId alice_id) (ObjectId alice_id) hi 10)
                \<lparr>delivered := True, deliveredAt := Some 10, updatedAt := 10\<rparr>],
       Emit ''s-alice''
         (MessageSent
            ((messageData (new_message (ObjectId m1_id) (ObjectId alice_id) (ObjectId alice_id) hi 10)
                alice_user alice_user)
               \<lparr>md_delivered := True\<rparr>) True)])"
    using message_send_accepted
      [OF example_ids(7) body example_cast(1) who(1) who(2), of 10 "ObjectId m1_id"]
    by (simp add: example_resolve example_messages example_sockets id)
  have rest: "post_message (ObjectId alice_id) 10 (ObjectId m1_id) (Some alice_id) (Some hi)
                online_server =
     (online_server, [Respond 400 False ''Cannot send message to yourself'' NoData])"
    using who
    by (simp add: post_message_def falsy_def User_findById_def example_text example_ids
          example_cast)
  show ?thesis
    using live rest by simp
qed

section \<open>Read receipts\<close>

text \<open>
  C9. Over REST only the receiver of a message can mark it read: carol's request for a
  message of alice to bob is answered with 403 and changes nothing. The handler of the
  live channel does not look at the receiver: carol's \<^verbatim>\<open>message:read\<close> for the same
  message marks it read in the store and notifies alice that carol read it.
\<close>

theorem message_read_by_third_user_marks_read:
  "message_read carol_socket 20 m1_id alice_id (online_server\<lparr>messages := [unread_message]\<rparr>) =
     (online_server
        \<lparr>messages := [unread_message\<lparr>read := True, readAt := Some 20, updatedAt := 20\<rparr>]\<rparr>,
      [Wrote [unread_message\<lparr>read := True, readAt := Some 20, updatedAt := 20\<rparr>],
       Emit ''s-alice'' (MessageRead m1_id carol_id (Some 20))]) \<and>
   receiver unread_message = ObjectId bob_id \<and>
   read unread_message = False \<and>
   put_message_read (ObjectId carol_id) 20 m1_id (online_server\<lparr>messages := [unread_message]\<rparr>) =
     (online_server\<lparr>messages := [unread_message]\<rparr>,
      [Respond 403 False ''Not authorized to mark this message as read'' NoData])"
proof -
  have id: "msg_id unread_message = ObjectId m1_id" "receiver unread_message = ObjectId bob_id"
    "read unread_message = False"
    by (simp_all add: unread_message_def)
  have res: "resolve (online_server\<lparr>messages := ms\<rparr>) alice_id = Some ''s-alice''" for ms
    using example_resolve(2) by (simp add: resolve_def)
  have live: "message_read carol_socket 20 m1_id alice_id
                (online_server\<lparr>messages := [unread_message]\<rparr>) =
     (online_server
        \<lparr>messages := [unread_message\<lparr>read := True, readAt := Some 20, updatedAt := 20\<rparr>]\<rparr>,
      [Wrote [unread_message\<lparr>read := True, readAt := Some 20, updatedAt := 20\<rparr>],
       Emit ''s-alice'' (MessageRead m1_id carol_id (Some 20))])"
    by (simp add: message_read_def Message_findByIdAndUpdate_def id res example_sockets Let_def
          example_cast)
  have rest: "put_message_read (ObjectId carol_id) 20 m1_id
                (online_server\<lparr>messages := [unread_message]\<rparr>) =
     (online_server\<lparr>messages := [unread_message]\<rparr>,
      [Respond 403 False ''Not authorized to mark this message as read'' NoData])"
    by (simp add: put_message_read_def Message_findById_def id example_ids example_cast)
  show ?thesis
    using live rest id by simp
qed

text \<open>
  The claim C7, as stated, fails: bob's message was read at time 5; when bob marks it
  read again at time 20, over the live channel or over REST, it is stored with 20 as
  the time it was read and as the time of its last update.
\<close>

theorem mark_read_again_counterexample:
  "read read_message \<and> readAt read_message = Some 5 \<and> updatedAt read_message = 5 \<and>
   messages (fst (message_read bob_socket 20 m1_id alice_id
                    (online_server\<lparr>messages := [read_message]\<rparr>))) =
     [read_message\<lparr>readAt := Some 20, updatedAt := 20\<rparr>] \<and>
   messages (fst (put_message_read (ObjectId bob_id) 20 m1_id
                    (online_server\<lparr>messages := [read_message]\<rparr>))) =
     [read_message\<lparr>readAt := Some 20, updatedAt := 20\<rparr>] \<and>
   read_message\<lparr>readAt := Some 20, updatedAt := 20\<rparr> \<noteq> read_message"
proof -
  have m: "msg_id read_message = ObjectId m1_id" "receiver read_message = ObjectId bob_id"
    "read read_message" "readAt read_message = Some 5" "updatedAt read_message = 5"
    by (simp_all add: read_message_def unread_message_def)
  have again: "read_message\<lparr>read := True, readAt := Some 20, updatedAt := 20\<rparr> =
               read_message\<lparr>readAt := Some 20, updatedAt := 20\<rparr>"
    "read_message\<lparr>read := True, readAt := Some 20\<rparr> \<noteq> read_message"
    "read_message\<lparr>readAt := Some 20, updatedAt := 20\<rparr> \<noteq> read_message"
    by (simp_all add: read_message_def unread_message_def)
  have live: "messages (fst (message_read bob_socket 20 m1_id alice_id
                    (online_server\<lparr>messages := [read_message]\<rparr>))) =
     [read_message\<lparr>readAt := Some 20, updatedAt := 20\<rparr>]"
    by (simp add: message_read_def Message_findByIdAndUpdate_def m again(1) Let_def
          example_cast split: option.split)
  have rest: "messages (fst (put_message_read (ObjectId bob_id) 20 m1_id
                    (online_server\<lparr>messages := [read_message]\<rparr>))) =
     [read_message\<lparr>readAt := Some 20, updatedAt := 20\<rparr>]"
    using again(2)
    by (simp add: put_message_read_def Message_findById_def m(1,2) again(1) Let_def
          example_cast)
  show ?thesis
    using live rest m again(3) by simp
qed

lemma update_first_cong_found:
  "find P xs = Some m \<Longrightarrow> f m = g m \<Longrightarrow> update_first P f xs = update_first P g xs"
  by (induction xs) (auto split: if_splits)

lemma find_Some_holds: "find P xs = Some m \<Longrightarrow> P m"
  by (induction xs) (auto split: if_splits)

text \<open>
  C7, amended. Marking read a message that is read already is not an error and leaves
  it read, but it is not a no-op: the first stored message with the id gets the time of
  the new request as \<open>readAt\<close> and \<open>updatedAt\<close>, and nothing else in the store changes.
  Over the live channel (any connection) the write is recorded and the user named as
  sender is notified again when connected; over REST (by the receiver) the answer is
  200 with the new time, and nothing is written only when \<open>readAt\<close> is that time already.
\<close>

theorem mark_read_again_overwrites_readAt:
  assumes "castObjectId i = Inr oid" and "find (\<lambda>x. msg_id x = oid) (messages st) = Some m"
    and "read m"
  shows "message_read socket now i senderId st =
           (st\<lparr>messages :=
                 update_first (\<lambda>x. msg_id x = oid) (\<lambda>x. x\<lparr>readAt := Some now, updatedAt := now\<rparr>)
                   (messages st)\<rparr>,
            Wrote [m\<lparr>readAt := Some now, updatedAt := now\<rparr>] #
              (case resolve st senderId of
                 Some c \<Rightarrow> [Emit c (MessageRead i (userId socket) (Some now))]
               | None \<Rightarrow> [])) \<and>
         (receiver m = me \<longrightarrow>
            put_message_read me now i st =
              (if readAt m = Some now
               then (st, [Respond 200 True ''Message marked as read''
                            (ReadReceipt oid True (Some now))])
               else (st\<lparr>messages :=
                         update_first (\<lambda>x. msg_id x = oid)
                           (\<lambda>x. x\<lparr>readAt := Some now, updatedAt := now\<rparr>) (messages st)\<rparr>,
                     [Wrote [m\<lparr>readAt := Some now, updatedAt := now\<rparr>],
                      Respond 200 True ''Message marked as read''
                        (ReadReceipt oid True (Some now))])))"
proof -
  have id: "msg_id m = oid"
    using find_Some_holds [OF assms(2)] by simp
  have same: "m\<lparr>read := True, readAt := Some now, updatedAt := now\<rparr> =
              m\<lparr>readAt := Some now, updatedAt := now\<rparr>"
    using assms(3) by simp
  have upd: "update_first (\<lambda>x. msg_id x = oid)
               (\<lambda>x. x\<lparr>read := True, readAt := Some now, updatedAt := now\<rparr>) (messages st) =
             update_first (\<lambda>x. msg_id x = oid)
               (\<lambda>x. x\<lparr>readAt := Some now, updatedAt := now\<rparr>) (messages st)"
    using assms(2) same by (rule update_first_cong_found)
  have res: "resolve (st\<lparr>messages := ms\<rparr>) senderId = resolve st senderId" for ms
    by (simp add: resolve_def)
  have live: "message_read socket now i senderId st =
           (st\<lparr>messages :=
                 update_first (\<lambda>x. msg_id x = oid) (\<lambda>x. x\<lparr>readAt := Some now, updatedAt := now\<rparr>)
                   (messages st)\<rparr>,
            Wrote [m\<lparr>readAt := Some now, updatedAt := now\<rparr>] #
              (case resolve st senderId of
                 Some c \<Rightarrow> [Emit c (MessageRead i (userId socket) (Some now))]
               | None \<Rightarrow> []))"
    using assms
    by (simp add: message_read_def Message_findByIdAndUpdate_def Let_def upd res same
          split: option.split)
  have unchanged: "(m\<lparr>read := True, readAt := Some now\<rparr> = m) = (readAt m = Some now)"
    using assms(3) by (cases m) auto
  have rest: "put_message_read me now i st =
              (if readAt m = Some now
               then (st, [Respond 200 True ''Message marked as read''
                            (ReadReceipt oid True (Some now))])
               else (st\<lparr>messages :=
                         update_first (\<lambda>x. msg_id x = oid)
                           (\<lambda>x. x\<lparr>readAt := Some now, updatedAt := now\<rparr>) (messages st)\<rparr>,
                     [Wrote [m\<lparr>readAt := Some now, updatedAt := now\<rparr>],
                      Respond 200 True ''Message marked as read''
                        (ReadReceipt oid True (Some now))]))"
    if "receiver m = me"
    using assms that upd
    by (simp add: put_message_read_def Message_findById_def Let_def id unchanged)
  show ?thesis
    using live rest by simp
qed

theorem mark_read_again_overwrites_readAt_witness:
  "message_read bob_socket 20 m1_id alice_id (online_server\<lparr>messages := [read_message]\<rparr>) =
     (online_server\<lparr>messages := [read_message\<lparr>readAt := Some 20, updatedAt := 20\<rparr>]\<rparr>,
      [Wrote [read_message\<lparr>readAt := Some 20, updatedAt := 20\<rparr>],
       Emit ''s-alice'' (MessageRead m1_id bob_id (Some 20))]) \<and>
   put_message_read (ObjectId bob_id) 20 m1_id (online_server\<lparr>messages := [read_message]\<rparr>) =
     (online_server\<lparr>messages := [read_message\<lparr>readAt := Some 20, updatedAt := 20\<rparr>]\<rparr>,
      [Wrote [read_message\<lparr>readAt := Some 20, updatedAt := 20\<rparr>],
       Respond 200 True ''Message marked as read'' (ReadReceipt (ObjectId m1_id) True (Some 20))])"
proof -
  have m: "msg_id read_message = ObjectId m1_id" "receiver read_message = ObjectId bob_id"
    "read read_message" "readAt read_message = Some 5"
    by (simp_all add: read_message_def unread_message_def)
  have found: "find (\<lambda>x. msg_id x = ObjectId m1_id)
                 (messages (online_server\<lparr>messages := [read_message]\<rparr>)) = Some read_message"
    by (simp add: m)
  have res: "resolve (online_server\<lparr>messages := [read_message]\<rparr>) alice_id = Some ''s-alice''"
    using example_resolve(2) by (simp add: resolve_def)
  show ?thesis
    using mark_read_again_overwrites_readAt
      [OF example_cast(5) found m(3), of bob_socket 20 alice_id "ObjectId bob_id"]
    by (simp add: m res example_sockets)
qed

section \<open>Marking a conversation read\<close>

lemma markAsRead_again:
  assumes "markAsRead s r t1 st = Inr (st1, w, n)"
  shows "markAsRead s r t2 st1 = Inr (st1, [], 0)"
proof -
  from assms obtain s_oid where cast: "castObjectId s = Inr s_oid"
    by (auto simp: markAsRead_def split: sum.splits)
  let ?sel = "\<lambda>m. sender m = s_oid \<and> receiver m = r \<and> \<not> read m"
  let ?g = "\<lambda>now m. if ?sel m then m\<lparr>read := True, readAt := Some now, updatedAt := now\<rparr> else m"
  from assms cast have st1: "st1 = st\<lparr>messages := map (?g t1) (messages st)\<rparr>"
    by (auto simp: markAsRead_def Let_def)
  have "filter ?sel (map (?g t1) ms) = []" for ms
    by (induction ms) auto
  moreover have "map (?g t2) (map (?g t1) ms) = map (?g t1) ms" for ms
    by (induction ms) auto
  ultimately show ?thesis
    using cast by (simp add: markAsRead_def Let_def st1)
qed

lemma markAsRead_total:
  "castObjectId s = Inr s_oid \<Longrightarrow> \<exists>st1 w n. markAsRead s r now st = Inr (st1, w, n)"
  by (simp add: markAsRead_def Let_def)

lemma markAsRead_users:
  "markAsRead s r now st = Inr (st1, w, n) \<Longrightarrow> users st1 = users st"
  by (auto simp: markAsRead_def Let_def split: sum.splits)

lemma put_conversation_read_again:
  "fst (put_conversation_read me t2 s (fst (put_conversation_read me t1 s st))) =
     fst (put_conversation_read me t1 s st)"
proof (cases "castObjectId s")
  case (Inl e)
  then show ?thesis
    by (simp add: put_conversation_read_def User_findById_def)
next
  case (Inr s_oid)
  show ?thesis
  proof (cases "users st s_oid")
    case None
    then show ?thesis
      using Inr by (simp add: put_conversation_read_def User_findById_def)
  next
    case (Some u)
    obtain st1 w n where first: "markAsRead s me t1 st = Inr (st1, w, n)"
      using markAsRead_total [OF Inr] by blast
    have again: "markAsRead s me t2 st1 = Inr (st1, [], 0)"
      using first by (rule markAsRead_again)
    have same: "users st1 s_oid = Some u"
      using markAsRead_users [OF first] Some by simp
    show ?thesis
      using first again same Inr Some
      by (simp add: put_conversation_read_def User_findById_def)
  qed
qed

lemma put_conversation_read_again_count:
  assumes "castObjectId s = Inr s_oid" and "users st s_oid = Some u"
  shows "snd (put_conversation_read me t2 s (fst (put_conversation_read me t1 s st))) =
           [Wrote [], Respond 200 True ''Messages marked as read'' (ModifiedCount 0)]"
proof -
  obtain st1 w n where first: "markAsRead s me t1 st = Inr (st1, w, n)"
    using markAsRead_total [OF assms(1)] by blast
  have again: "markAsRead s me t2 st1 = Inr (st1, [], 0)"
    using first by (rule markAsRead_again)
  have same: "users st1 s_oid = Some u"
    using markAsRead_users [OF first] assms by simp
  show ?thesis
    using first again same assms
    by (simp add: put_conversation_read_def User_findById_def)
qed

lemma conversation_read_again:
  "fst (conversation_read socket t2 s (fst (conversation_read socket t1 s st))) =
     fst (conversation_read socket t1 s st)"
proof (cases "castObjectId s")
  case (Inl e)
  then show ?thesis
    by (simp add: conversation_read_def markAsRead_def)
next
  case (Inr s_oid)
  obtain st1 w n where first: "markAsRead s (ObjectId (userId socket)) t1 st = Inr (st1, w, n)"
    using markAsRead_total [OF Inr] by blast
  have again: "markAsRead s (ObjectId (userId socket)) t2 st1 = Inr (st1, [], 0)"
    using first by (rule markAsRead_again)
  show ?thesis
    using first again by (simp add: conversation_read_def)
qed

text \<open>
  C8. Marking a conversation read twice in succession, at any two times, leaves the
  server in the state that the first call produced, over REST and over the live channel
  alike; and when the first REST call went through (the sender id casts to the id of a
  user), the second answers 200 with a modified count of 0, having written nothing. The
  same holds of the static \<^verbatim>\<open>markAsRead\<close> itself: after a call that returned, a second call
  returns the same state, no written document and the count 0.
\<close>

theorem mark_conversation_read_idempotent:
  "fst (put_conversation_read me t2 s (fst (put_conversation_read me t1 s st))) =
     fst (put_conversation_read me t1 s st) \<and>
   fst (conversation_read socket t2 s (fst (conversation_read socket t1 s st))) =
     fst (conversation_read socket t1 s st) \<and>
   (castObjectId s = Inr s_oid \<and> users st s_oid \<noteq> None \<longrightarrow>
      snd (put_conversation_read me t2 s (fst (put_conversation_read me t1 s st))) =
        [Wrote [], Respond 200 True ''Messages marked as read'' (ModifiedCount 0)]) \<and>
   (markAsRead s r t1 st = Inr (st1, w, n) \<longrightarrow> markAsRead s r t2 st1 = Inr (st1, [], 0))"
  using put_conversation_read_again [of me t2 s t1 st]
    conversation_read_again [of socket t2 s t1 st]
    put_conversation_read_again_count [of s s_oid st _ me t2 t1]
    markAsRead_again [of s r t1 st st1 w n t2]
  by auto

theorem mark_conversation_read_idempotent_witness:
  "messages (fst (put_conversation_read (ObjectId bob_id) 30 alice_id
      (fst (put_conversation_read (ObjectId bob_id) 20 alice_id
         (example_server\<lparr>messages := [unread_message]\<rparr>))))) =
     [unread_message\<lparr>read := True, readAt := Some 20, updatedAt := 20\<rparr>] \<and>
   snd (put_conversation_read (ObjectId bob_id) 20 alice_id
          (example_server\<lparr>messages := [unread_message]\<rparr>)) =
     [Wrote [unread_message\<lparr>read := True, readAt := Some 20, updatedAt := 20\<rparr>],
      Respond 200 True ''Messages marked as read'' (ModifiedCount 1)] \<and>
   snd (put_conversation_read (ObjectId bob_id) 30 alice_id
      (fst (put_conversation_read (ObjectId bob_id) 20 alice_id
         (example_server\<lparr>messages := [unread_message]\<rparr>)))) =
     [Wrote [], Respond 200 True ''Messages marked as read'' (ModifiedCount 0)] \<and>
   markAsRead alice_id (ObjectId bob_id) 30
     (example_server\<lparr>messages := [unread_message\<lparr>read := True, readAt := Some 20,
                                       updatedAt := 20\<rparr>]\<rparr>) =
     Inr (example_server\<lparr>messages := [unread_message\<lparr>read := True, readAt := Some 20,
                                          updatedAt := 20\<rparr>]\<rparr>, [], 0)"
proof -
  let ?st = "example_server\<lparr>messages := [unread_message]\<rparr>"
  let ?st1 = "example_server\<lparr>messages := [unread_message\<lparr>read := True, readAt := Some 20,
                                                 updatedAt := 20\<rparr>]\<rparr>"
  have m: "sender unread_message = ObjectId alice_id" "receiver unread_message = ObjectId bob_id"
    "\<not> read unread_message"
    by (simp_all add: unread_message_def)
  have who: "users ?st (ObjectId alice_id) = Some alice_user"
    by (simp add: example_users)
  have first: "markAsRead alice_id (ObjectId bob_id) 20 ?st =
      Inr (?st1, [unread_message\<lparr>read := True, readAt := Some 20, updatedAt := 20\<rparr>], 1)"
    by (simp add: markAsRead_def Let_def m example_cast)
  have one: "put_conversation_read (ObjectId bob_id) 20 alice_id ?st =
      (?st1, [Wrote [unread_message\<lparr>read := True, readAt := Some 20, updatedAt := 20\<rparr>],
              Respond 200 True ''Messages marked as read'' (ModifiedCount 1)])"
    using who first by (simp add: put_conversation_read_def User_findById_def example_cast)
  show ?thesis
    using mark_conversation_read_idempotent
      [of "ObjectId bob_id" 30 alice_id 20 ?st alice_socket "ObjectId alice_id"
          "ObjectId bob_id" ?st1
          "[unread_message\<lparr>read := True, readAt := Some 20, updatedAt := 20\<rparr>]" 1]
      who first one example_cast(1)
    by simp
qed

section \<open>Rejected sends\<close>

lemma castObjectId_error: "castObjectId s = Inl e \<Longrightarrow> e = CastError"
  by (auto simp: castObjectId_def split: if_splits)

lemma not_blank: "\<not> blank (Some t) \<Longrightarrow> trim t \<noteq> [] \<and> t \<noteq> []"
  using trim_Nil by (auto simp: blank_def)

lemma message_send_invalid:
  assumes "blank v \<or> falsy receiverId"
  shows "message_send socket now oid receiverId v st =
           (st, [Emit (sock_id socket) (Error ''Invalid message data'')])"
  using assms
  by (cases receiverId; cases v) (auto simp: message_send_def blank_def falsy_def)

lemma post_message_invalid:
  assumes "blank v \<or> falsy receiverId"
  shows "fst (post_message me now oid receiverId v st) = st \<and>
         snd (post_message me now oid receiverId v st) \<in>
           {[Respond 400 False ''Receiver ID and message text are required'' NoData],
            [Respond 400 False ''Message text cannot be empty'' NoData]}"
  using assms
  by (cases receiverId; cases v) (auto simp: post_message_def blank_def falsy_def)

lemma message_send_malformed_receiver:
  assumes "\<not> blank (Some t)" and "rid \<noteq> []" and "castObjectId rid = Inl e"
  shows "message_send socket now oid (Some rid) (Some t) st =
           (st, [Emit (sock_id socket) (Error ''Failed to send message'')])"
  using assms not_blank [OF assms(1)]
  by (simp add: message_send_def falsy_def User_findById_def)

lemma post_message_malformed_receiver:
  assumes "\<not> blank (Some t)" and "rid \<noteq> []" and "castObjectId rid = Inl e"
  shows "post_message me now oid (Some rid) (Some t) st =
           (st, [Respond 400 False ''Invalid receiver ID'' NoData])"
  using assms not_blank [OF assms(1)] castObjectId_error [OF assms(3)]
  by (simp add: post_message_def falsy_def User_findById_def post_catch_def)

lemma message_send_unknown_receiver:
  assumes "\<not> blank (Some t)" and "rid \<noteq> []" and "castObjectId rid = Inr r_oid"
    and "users st r_oid = None"
  shows "message_send socket now oid (Some rid) (Some t) st =
           (st, [Emit (sock_id socket) (Error ''Receiver not found'')])"
  using assms not_blank [OF assms(1)]
  by (simp add: message_send_def falsy_def User_findById_def)

lemma post_message_unknown_receiver:
  assumes "\<not> blank (Some t)" and "rid \<noteq> []" and "castObjectId rid = Inr r_oid"
    and "users st r_oid = None"
  shows "post_message me now oid (Some rid) (Some t) st =
           (st, [Respond 404 False ''Receiver not found'' NoData])"
  using assms not_blank [OF assms(1)]
  by (simp add: post_message_def falsy_def User_findById_def)

lemma Message_create_oversized:
  "maxlength < length (trim t) \<Longrightarrow>
   Message_create oid s r (trim t) now st =
     Inl (ValidationError ''Message cannot exceed 1000 characters'')"
  by (auto simp: Message_create_def trim_trim)

lemma message_send_oversized:
  assumes "maxlength < length (trim t)" and "rid \<noteq> []" and "castObjectId rid = Inr r_oid"
    and "users st r_oid = Some r"
  shows "message_send socket now oid (Some rid) (Some t) st =
           (st, [Emit (sock_id socket) (Error ''Failed to send message'')])"
proof -
  from assms(1) have "trim t \<noteq> []" and "t \<noteq> []"
    using trim_Nil by auto
  then show ?thesis
    using assms
    by (simp add: message_send_def falsy_def User_findById_def Message_create_oversized)
qed

lemma post_message_oversized:
  assumes "maxlength < length (trim t)" and "rid \<noteq> []" and "castObjectId rid = Inr r_oid"
    and "users st r_oid = Some r"
  shows "post_message me now oid (Some rid) (Some t) st =
           (st, [if rid = toString me
                 then Respond 400 False ''Cannot send message to yourself'' NoData
                 else Respond 400 False ''Message cannot exceed 1000 characters'' NoData])"
proof -
  from assms(1) have "trim t \<noteq> []" and "t \<noteq> []"
    using trim_Nil by auto
  then show ?thesis
    using assms
    by (simp add: post_message_def falsy_def User_findById_def Message_create_oversized
          post_catch_def)
qed

text \<open>
  The claim C6, as stated, fails, at each of these requests. None of them stores
  anything, and each gets one error, but not the one that the claim names.
  \<^item> Alice sends bob, over the live channel, a text of 1001 letters: the error is the
    handler's general \<^verbatim>\<open>Failed to send message\<close>, the one of its \<^verbatim>\<open>catch\<close>, not the
    \<^verbatim>\<open>Invalid message data\<close> of its validation.
  \<^item> She sends the same text to her own id over REST: the error is
    \<^verbatim>\<open>Cannot send message to yourself\<close>.
  \<^item> She sends white space to an id that names no user: the error is
    \<^verbatim>\<open>Invalid message data\<close>, not \<^verbatim>\<open>Receiver not found\<close>.
  \<^item> She sends \<^verbatim>\<open>hi\<close> to \<^verbatim>\<open>nobody\<close>, which is no ObjectId: the error is
    \<^verbatim>\<open>Failed to send message\<close> on the live channel and 400 \<^verbatim>\<open>Invalid receiver ID\<close> over
    REST, not \<^verbatim>\<open>Receiver not found\<close>.
  \<^item> She sends \<^verbatim>\<open>hi\<close> with no receiver id: the error is \<^verbatim>\<open>Invalid message data\<close>, not
    \<^verbatim>\<open>Receiver not found\<close>.
\<close>

theorem rejected_sends_counterexample:
  "length (trim letters_1001) = 1001 \<and>
   users example_server (ObjectId bob_id) = Some bob_user \<and>
   message_send alice_socket 10 (ObjectId m1_id) (Some bob_id) (Some letters_1001) example_server =
     (example_server, [Emit ''s-alice'' (Error ''Failed to send message'')]) \<and>
   post_message (ObjectId alice_id) 10 (ObjectId m1_id) (Some alice_id) (Some letters_1001)
     example_server =
     (example_server, [Respond 400 False ''Cannot send message to yourself'' NoData]) \<and>
   trim white = [] \<and>
   users example_server (ObjectId dave_id) = None \<and>
   message_send alice_socket 10 (ObjectId m1_id) (Some dave_id) (Some white) example_server =
     (example_server, [Emit ''s-alice'' (Error ''Invalid message data'')]) \<and>
   castObjectId ''nobody'' = Inl CastError \<and>
   message_send alice_socket 10 (ObjectId m1_id) (Some ''nobody'') (Some hi) example_server =
     (example_server, [Emit ''s-alice'' (Error ''Failed to send message'')]) \<and>
   post_message (ObjectId alice_id) 10 (ObjectId m1_id) (Some ''nobody'') (Some hi)
     example_server =
     (example_server, [Respond 400 False ''Invalid receiver ID'' NoData]) \<and>
   message_send alice_socket 10 (ObjectId m1_id) None (Some hi) example_server =
     (example_server, [Emit ''s-alice'' (Error ''Invalid message data'')])"
proof -
  have long: "maxlength < length (trim letters_1001)"
    by (simp add: example_text maxlength_def)
  have spaces: "blank (Some white) \<or> falsy (Some dave_id)"
    by (simp add: blank_def example_text)
  have absent: "blank (Some hi) \<or> falsy (None :: string option)"
    by (simp add: falsy_def)
  have text_hi: "\<not> blank (Some hi)"
    by (simp add: blank_def example_text)
  have no_id: "''nobody'' \<noteq> []"
    by simp
  have self: "alice_id = toString (ObjectId alice_id)"
    by simp
  show ?thesis
    using message_send_oversized
      [OF long example_ids(8) example_cast(2) example_users(2), of alice_socket 10 "ObjectId m1_id"]
      post_message_oversized
      [OF long example_ids(7) example_cast(1) example_users(1), of "ObjectId alice_id" 10
         "ObjectId m1_id"]
      message_send_invalid [OF spaces, of alice_socket 10 "ObjectId m1_id" example_server]
      message_send_malformed_receiver
      [OF text_hi no_id example_cast(8), of alice_socket 10 "ObjectId m1_id" example_server]
      post_message_malformed_receiver
      [OF text_hi no_id example_cast(8), of "ObjectId alice_id" 10 "ObjectId m1_id" example_server]
      message_send_invalid [OF absent, of alice_socket 10 "ObjectId m1_id" example_server]
    by (simp add: example_text example_users example_sockets example_cast)
qed

text \<open>
  C6, amended. A send is checked in this order, the first check that fails decides the
  error, and in each of these cases the state of the server is unchanged and the one
  effect is the error, sent to the sender.
  \<^item> The text is absent or empty once trimmed, or the receiver id is absent or empty:
    \<^verbatim>\<open>Invalid message data\<close> on the live channel, a 400 over REST.
  \<^item> Otherwise the receiver id does not cast to an ObjectId: the general
    \<^verbatim>\<open>Failed to send message\<close> on the live channel, 400 \<^verbatim>\<open>Invalid receiver ID\<close> over REST.
  \<^item> Otherwise the receiver id names no user: \<^verbatim>\<open>Receiver not found\<close> (404 over REST).
  \<^item> Otherwise the trimmed text is longer than \<open>maxlength\<close>: the general
    \<^verbatim>\<open>Failed to send message\<close> on the live channel; over REST 400 with the validator's
    message, or 400 \<^verbatim>\<open>Cannot send message to yourself\<close> when the receiver id is the
    sender's own.
\<close>

theorem rejected_sends_report_to_sender_and_store_nothing:
  "(blank v \<or> falsy receiverId \<longrightarrow>
      message_send socket now oid receiverId v st =
        (st, [Emit (sock_id socket) (Error ''Invalid message data'')]) \<and>
      fst (post_message me now oid receiverId v st) = st \<and>
      snd (post_message me now oid receiverId v st) \<in>
        {[Respond 400 False ''Receiver ID and message text are required'' NoData],
         [Respond 400 False ''Message text cannot be empty'' NoData]}) \<and>
   (\<not> blank (Some t) \<and> rid \<noteq> [] \<and> castObjectId rid = Inl e \<longrightarrow>
      message_send socket now oid (Some rid) (Some t) st =
        (st, [Emit (sock_id socket) (Error ''Failed to send message'')]) \<and>
      post_message me now oid (Some rid) (Some t) st =
        (st, [Respond 400 False ''Invalid receiver ID'' NoData])) \<and>
   (\<not> blank (Some t) \<and> rid \<noteq> [] \<and> castObjectId rid = Inr r_oid \<and> users st r_oid = None \<longrightarrow>
      message_send socket now oid (Some rid) (Some t) st =
        (st, [Emit (sock_id socket) (Error ''Receiver not found'')]) \<and>
      post_message me now oid (Some rid) (Some t) st =
        (st, [Respond 404 False ''Receiver not found'' NoData])) \<and>
   (maxlength < length (trim t) \<and> rid \<noteq> [] \<and> castObjectId rid = Inr r_oid \<and>
    users st r_oid = Some r \<longrightarrow>
      message_send socket now oid (Some rid) (Some t) st =
        (st, [Emit (sock_id socket) (Error ''Failed to send message'')]) \<and>
      post_message me now oid (Some rid) (Some t) st =
        (st, [if rid = toString me
              then Respond 400 False ''Cannot send message to yourself'' NoData
              else Respond 400 False ''Message cannot exceed 1000 characters'' NoData]))"
  using message_send_invalid [of v receiverId socket now oid st]
    post_message_invalid [of v receiverId me now oid st]
    message_send_malformed_receiver [of t rid e socket now oid st]
    post_message_malformed_receiver [of t rid e me now oid st]
    message_send_unknown_receiver [of t rid r_oid st socket now oid]
    post_message_unknown_receiver [of t rid r_oid st me now oid]
    message_send_oversized [of t rid r_oid st r socket now oid]
    post_message_oversized [of t rid r_oid st r me now oid]
  by blast

theorem rejected_sends_report_to_sender_and_store_nothing_witness:
  "message_send alice_socket 10 (ObjectId m1_id) (Some bob_id) (Some white) example_server =
     (example_server, [Emit ''s-alice'' (Error ''Invalid message data'')]) \<and>
   fst (post_message (ObjectId alice_id) 10 (ObjectId m1_id) (Some bob_id) (Some white)
          example_server) = example_server \<and>
   message_send alice_socket 10 (ObjectId m1_id) (Some ''nobody'') (Some hi) example_server =
     (example_server, [Emit ''s-alice'' (Error ''Failed to send message'')]) \<and>
   post_message (ObjectId alice_id) 10 (ObjectId m1_id) (Some ''nobody'') (Some hi)
     example_server =
     (example_server, [Respond 400 False ''Invalid receiver ID'' NoData]) \<and>
   message_send alice_socket 10 (ObjectId m1_id) (Some dave_id) (Some hi) example_server =
     (example_server, [Emit ''s-alice'' (Error ''Receiver not found'')]) \<and>
   post_message (ObjectId alice_id) 10 (ObjectId m1_id) (Some dave_id) (Some hi) example_server =
     (example_server, [Respond 404 False ''Receiver not found'' NoData]) \<and>
   message_send alice_socket 10 (ObjectId m1_id) (Some bob_id) (Some letters_1001) example_server =
     (example_server, [Emit ''s-alice'' (Error ''Failed to send message'')]) \<and>
   post_message (ObjectId alice_id) 10 (ObjectId m1_id) (Some bob_id) (Some letters_1001)
     example_server =
     (example_server, [Respond 400 False ''Message cannot exceed 1000 characters'' NoData])"
proof -
  have spaces: "blank (Some white) \<or> falsy (Some bob_id)"
    by (simp add: blank_def example_text)
  have long: "maxlength < length (trim letters_1001)"
    by (simp add: example_text maxlength_def)
  have text_hi: "\<not> blank (Some hi)"
    by (simp add: blank_def example_text)
  have no_id: "''nobody'' \<noteq> []"
    by simp
  have other: "bob_id \<noteq> toString (ObjectId alice_id)"
    using example_ids(2) by simp
  have empty:
    "message_send alice_socket 10 (ObjectId m1_id) (Some bob_id) (Some white) example_server =
       (example_server, [Emit (sock_id alice_socket) (Error ''Invalid message data'')]) \<and>
     fst (post_message (ObjectId alice_id) 10 (ObjectId m1_id) (Some bob_id) (Some white)
            example_server) = example_server"
    using rejected_sends_report_to_sender_and_store_nothing
      [where v = "Some white" and socket = alice_socket and now = 10 and oid = "ObjectId m1_id"
         and receiverId = "Some bob_id" and st = example_server and me = "ObjectId alice_id"]
      spaces
    by blast
  have malformed:
    "message_send alice_socket 10 (ObjectId m1_id) (Some ''nobody'') (Some hi) example_server =
       (example_server, [Emit (sock_id alice_socket) (Error ''Failed to send message'')]) \<and>
     post_message (ObjectId alice_id) 10 (ObjectId m1_id) (Some ''nobody'') (Some hi)
       example_server =
       (example_server, [Respond 400 False ''Invalid receiver ID'' NoData])"
    using rejected_sends_report_to_sender_and_store_nothing
      [where t = hi and socket = alice_socket and now = 10 and oid = "ObjectId m1_id"
         and rid = "''nobody''" and st = example_server and me = "ObjectId alice_id"
         and e = CastError]
      text_hi no_id example_cast(8)
    by blast
  have unknown:
    "message_send alice_socket 10 (ObjectId m1_id) (Some dave_id) (Some hi) example_server =
       (example_server, [Emit (sock_id alice_socket) (Error ''Receiver not found'')]) \<and>
     post_message (ObjectId alice_id) 10 (ObjectId m1_id) (Some dave_id) (Some hi) example_server =
       (example_server, [Respond 404 False ''Receiver not found'' NoData])"
    using rejected_sends_report_to_sender_and_store_nothing
      [where t = hi and socket = alice_socket and now = 10 and oid = "ObjectId m1_id"
         and rid = dave_id and st = example_server and me = "ObjectId alice_id"
         and r_oid = "ObjectId dave_id"]
      text_hi example_ids(15) example_cast(4) example_users(4)
    by blast
  have oversized:
    "message_send alice_socket 10 (ObjectId m1_id) (Some bob_id) (Some letters_1001)
       example_server =
       (example_server, [Emit (sock_id alice_socket) (Error ''Failed to send message'')]) \<and>
     post_message (ObjectId alice_id) 10 (ObjectId m1_id) (Some bob_id) (Some letters_1001)
       example_server =
       (example_server, [Respond 400 False ''Message cannot exceed 1000 characters'' NoData])"
    using rejected_sends_report_to_sender_and_store_nothing
      [where t = letters_1001 and socket = alice_socket and now = 10 and oid = "ObjectId m1_id"
         and rid = bob_id and st = example_server and me = "ObjectId alice_id"
         and r_oid = "ObjectId bob_id" and r = bob_user]
      long example_ids(8) example_cast(2) example_users(2) other
    by simp
  show ?thesis
    using empty malformed unknown oversized by (simp add: example_sockets)
qed

end
